theory Spec2Isabelle
  imports Main
begin

section \<open>pcurl: request construction and response rendering (src/index.ts)\<close>

text \<open>
  The program is one commander action: it builds an axios request configuration from
  the parsed command-line options, awaits the HTTP client, and prints the response.
  The embedding follows the action line by line. The libraries it calls are not part
  of the repository and enter the model as follows.
  \<^item> commander: the parsed options are the input, a record.
  \<^item> axios: the client is a function from the request configuration to an outcome,
    a delivered response or a thrown error.
  \<^item> \<open>JSON.parse\<close>, \<open>JSON.stringify\<close> and the conversion of a number to text are
    fields of a record of built-ins that the action takes as a parameter.
  \<^item> chalk, cli-highlight and the console: a console call is an event, the stream
    written to and the list of its arguments; a coloured or highlighted text is an
    argument that records the text and what was applied to it.
  Strings are lists of 8-bit characters, so a code unit above 255 is outside the model.
\<close>

subsection \<open>JavaScript string operations\<close>

text \<open>\<open>s.split(":")\<close>: the pieces between the colons; never the empty array.\<close>

fun split_colon :: "string \<Rightarrow> string list" where
  "split_colon [] = [[]]"
| "split_colon (c # cs) =
     (if c = CHR '':'' then [] # split_colon cs
      else (case split_colon cs of
              [] \<Rightarrow> [[c]]
            | p # ps \<Rightarrow> (c # p) # ps))"

text \<open>\<open>parts.join(":")\<close>.\<close>

fun join_colon :: "string list \<Rightarrow> string" where
  "join_colon [] = []"
| "join_colon [p] = p"
| "join_colon (p # q # ps) = p @ CHR '':'' # join_colon (q # ps)"

text \<open>
  The white space and line terminators that \<open>trim\<close> strips, among the code units
  below 256: tab, line feed, vertical tab, form feed, carriage return, space and
  the no-break space.
\<close>

definition is_space :: "char \<Rightarrow> bool" where
  "is_space c \<longleftrightarrow>
     c = CHR 0x09 \<or> c = CHR 0x0A \<or> c = CHR 0x0B \<or> c = CHR 0x0C \<or> c = CHR 0x0D
     \<or> c = CHR 0x20 \<or> c = CHR 0xA0"

definition trim :: "string \<Rightarrow> string" where
  "trim s = rev (dropWhile is_space (rev (dropWhile is_space s)))"

text \<open>\<open>s.includes(sub)\<close>: \<open>sub\<close> occurs in \<open>s\<close> as a contiguous run.\<close>

fun js_includes :: "string \<Rightarrow> string \<Rightarrow> bool" where
  "js_includes [] sub \<longleftrightarrow> sub = []"
| "js_includes (c # cs) sub \<longleftrightarrow> take (length sub) (c # cs) = sub \<or> js_includes cs sub"

text \<open>A non-negative integer in a template literal: its decimal digits.\<close>

fun dec :: "nat \<Rightarrow> string" where
  "dec n = (if n < 10 then [''0123456789'' ! n]
            else dec (n div 10) @ [''0123456789'' ! (n mod 10)])"

declare dec.simps [simp del]

text \<open>
  Truthiness of an optional string: \<open>undefined\<close> and the empty string are falsy.
  \<open>a || b\<close> is \<open>a\<close> when \<open>a\<close> is truthy and \<open>b\<close> otherwise.
\<close>

definition truthy :: "string option \<Rightarrow> bool" where
  "truthy x \<longleftrightarrow> (case x of None \<Rightarrow> False | Some s \<Rightarrow> s \<noteq> [])"

definition js_or :: "string option \<Rightarrow> string option \<Rightarrow> string option" where
  "js_or a b = (if truthy a then a else b)"

subsection \<open>The request configuration\<close>

text \<open>
  The fields of commander's options object that the action reads. \<open>-L\<close> and
  \<open>--compressed\<close> are accepted and never read. A flag that was not given is
  \<open>undefined\<close>: \<open>None\<close> for a string, \<open>False\<close> for a switch.
\<close>

record options =
  opt_request :: string
  opt_header :: "string list"
  opt_data :: "string option"
  opt_dataRaw :: "string option"
  opt_dataBinary :: "string option"
  opt_user :: "string option"
  opt_insecure :: bool
  opt_include :: bool
  opt_silent :: bool

text \<open>
  \<open>headers\<close> is a plain object literal, a map from property names to strings.
  An assignment \<open>headers[k] = v\<close> creates or overwrites the property \<open>k\<close>, except
  for \<open>k = "__proto__"\<close>: that name is an accessor inherited from
  \<open>Object.prototype\<close> whose setter ignores a value that is not an object, so the
  assignment of a string leaves \<open>headers\<close> as it was.
\<close>

type_synonym headers = "string \<rightharpoonup> string"

definition set_prop :: "headers \<Rightarrow> string \<Rightarrow> string \<Rightarrow> headers" where
  "set_prop obj k v = (if k = ''__proto__'' then obj else obj(k \<mapsto> v))"

text \<open>Lines 39 to 44: the body of the \<open>forEach\<close> over the header flags.\<close>

definition add_header :: "headers \<Rightarrow> string \<Rightarrow> headers" where
  "add_header hdrs h =
     (case split_colon h of
        [] \<Rightarrow> hdrs
      | key # valueParts \<Rightarrow>
          if key \<noteq> [] \<and> length valueParts > 0
          then set_prop hdrs (trim key) (trim (join_colon valueParts))
          else hdrs)"

definition parse_headers :: "string list \<Rightarrow> headers" where
  "parse_headers hs = foldl add_header Map.empty hs"

text \<open>Line 48.\<close>

definition select_data :: "options \<Rightarrow> string option" where
  "select_data opts = js_or (js_or (opt_data opts) (opt_dataRaw opts)) (opt_dataBinary opts)"

text \<open>Lines 53 to 55.\<close>

definition inject_content_type :: "string option \<Rightarrow> headers \<Rightarrow> headers" where
  "inject_content_type d hdrs =
     (if truthy d \<and> \<not> truthy (hdrs ''Content-Type'') \<and> \<not> truthy (hdrs ''content-type'')
      then set_prop hdrs ''Content-Type'' ''application/json''
      else hdrs)"

text \<open>
  Lines 58 to 62. The array pattern \<open>[username, password]\<close> takes the first two
  pieces of the split; \<open>password\<close> is \<open>undefined\<close> when there is only one.
\<close>

record basic_auth =
  username :: string
  password :: "string option"

definition parse_user :: "string option \<Rightarrow> basic_auth option" where
  "parse_user u =
     (case u of
        None \<Rightarrow> None
      | Some s \<Rightarrow>
          if s = [] then None
          else (case split_colon s of
                  [] \<Rightarrow> None
                | [n] \<Rightarrow> Some \<lparr>username = n, password = None\<rparr>
                | n # p # _ \<Rightarrow> Some \<lparr>username = n, password = Some p\<rparr>))"

text \<open>Lines 65 to 77: the object handed to axios.\<close>

record config =
  cfg_method :: string
  cfg_url :: string
  cfg_headers :: headers
  cfg_data :: "string option"
  cfg_auth :: "basic_auth option"
  cfg_rejectUnauthorized :: bool

definition build_config :: "string \<Rightarrow> options \<Rightarrow> config" where
  "build_config url opts =
     (let d = select_data opts in
      \<lparr>cfg_method = opt_request opts,
       cfg_url = url,
       cfg_headers = inject_content_type d (parse_headers (opt_header opts)),
       cfg_data = d,
       cfg_auth = parse_user (opt_user opts),
       cfg_rejectUnauthorized = (\<not> opt_insecure opts)\<rparr>)"

subsection \<open>The response and the console\<close>

text \<open>
  \<open>response.data\<close> is a JavaScript value: the text of the body, or what the client
  decoded from it. \<open>'n\<close> is the type of numbers.
\<close>

datatype 'n jsval =
  JNull
| JBool bool
| JNum 'n
| JStr string
| JArr "'n jsval list"
| JObj "(string \<times> 'n jsval) list"

text \<open>\<open>typeof v === "object" && v !== null\<close>.\<close>

fun is_object :: "'n jsval \<Rightarrow> bool" where
  "is_object (JArr _) = True"
| "is_object (JObj _) = True"
| "is_object _ = False"

text \<open>
  The built-ins: \<open>JSON.parse\<close> (\<open>None\<close> when it throws), \<open>JSON.stringify(v, null, n)\<close>
  with the indentation \<open>n\<close>, and the text of a number.
\<close>

record 'n builtins =
  json_parse :: "string \<Rightarrow> 'n jsval option"
  json_stringify :: "nat \<Rightarrow> 'n jsval \<Rightarrow> string"
  num_to_string :: "'n \<Rightarrow> string"

text \<open>
  \<open>JSON.parse\<close> converts its argument to a string first; objects never reach it
  (line 106 takes them).
\<close>

fun to_string :: "'n builtins \<Rightarrow> 'n jsval \<Rightarrow> string" where
  "to_string B (JStr s) = s"
| "to_string B JNull = ''null''"
| "to_string B (JBool b) = (if b then ''true'' else ''false'')"
| "to_string B (JNum n) = num_to_string B n"
| "to_string B v = ''[object Object]''"

record 'n response =
  resp_status :: nat
  resp_statusText :: string
  resp_headers :: "(string \<times> string) list"
  resp_data :: "'n jsval"
  resp_protocol :: "string option"

datatype colour = Blue | Cyan | Yellow | Red

text \<open>
  An argument of a console call: a string printed as it is, a string through a chalk
  colour, a string through \<open>highlight\<close> with the JSON language, or a value that is
  not a string, which the console formats.
\<close>

datatype 'n arg =
  Plain string
| Chalk colour string
| Highlight string
| Inspect "'n jsval"

datatype stream = Stdout | Stderr

type_synonym 'n event = "stream \<times> 'n arg list"

definition console_log :: "'n arg list \<Rightarrow> 'n event" where
  "console_log args = (Stdout, args)"

definition console_warn :: "'n arg list \<Rightarrow> 'n event" where
  "console_warn args = (Stderr, args)"

definition console_error :: "'n arg list \<Rightarrow> 'n event" where
  "console_error args = (Stderr, args)"

text \<open>\<open>console.log(response.data)\<close>.\<close>

definition log_data :: "'n jsval \<Rightarrow> 'n event" where
  "log_data d = console_log [case d of JStr s \<Rightarrow> Plain s | _ \<Rightarrow> Inspect d]"

text \<open>Line 85: \<open>response.request.protocol?.split(":")[1] || "1.1"\<close>.\<close>

definition http_version :: "string option \<Rightarrow> string" where
  "http_version p =
     (case p of
        None \<Rightarrow> ''1.1''
      | Some s \<Rightarrow>
          (case split_colon s of
             _ # v # _ \<Rightarrow> if v \<noteq> [] then v else ''1.1''
           | _ \<Rightarrow> ''1.1''))"

text \<open>Lines 84 to 91.\<close>

definition print_headers :: "options \<Rightarrow> 'n response \<Rightarrow> 'n event list" where
  "print_headers opts r =
     (if opt_include opts
      then console_log [Chalk Blue (''HTTP/'' @ http_version (resp_protocol r) @ '' ''
                                     @ dec (resp_status r) @ '' '' @ resp_statusText r)]
           # map (\<lambda>(key, val). console_log [Chalk Cyan (key @ '': '' @ val)]) (resp_headers r)
           @ [console_log [Plain '''']]
      else [])"

text \<open>Lines 93 to 99.\<close>

definition print_warning :: "options \<Rightarrow> 'n response \<Rightarrow> 'n event list" where
  "print_warning opts r =
     (if resp_status r \<ge> 400 \<and> \<not> opt_silent opts
      then [console_warn [Chalk Yellow (''Warning: Request failed with status ''
                                         @ dec (resp_status r) @ '' '' @ resp_statusText r)]]
      else [])"

text \<open>Lines 102 to 104.\<close>

definition isJsonHeader :: "'n response \<Rightarrow> bool" where
  "isJsonHeader r =
     (case map_of (resp_headers r) ''content-type'' of
        None \<Rightarrow> False
      | Some contentType \<Rightarrow> contentType \<noteq> [] \<and> js_includes contentType ''application/json'')"

text \<open>Lines 106 to 123.\<close>

definition print_body :: "'n builtins \<Rightarrow> 'n response \<Rightarrow> 'n event list" where
  "print_body B r =
     (if is_object (resp_data r)
      then [console_log [Highlight (json_stringify B 2 (resp_data r))]]
      else if isJsonHeader r
      then (case json_parse B (to_string B (resp_data r)) of
              Some json \<Rightarrow> [console_log [Highlight (json_stringify B 2 json)]]
            | None \<Rightarrow> [log_data (resp_data r)])
      else [log_data (resp_data r)])"

subsection \<open>The action\<close>

text \<open>
  What the \<open>catch\<close> block reads of the thrown value: \<open>error.response\<close> with its
  status and status text, whether \<open>error.request\<close> is set, and \<open>error.message\<close>.
\<close>

record js_error =
  err_response :: "(nat \<times> string) option"
  err_request :: bool
  err_message :: string

datatype 'n outcome = Delivered "'n response" | Thrown js_error

text \<open>Lines 124 to 139.\<close>

definition report_error :: "options \<Rightarrow> js_error \<Rightarrow> 'n event list" where
  "report_error opts e =
     (if opt_silent opts then []
      else (case err_response e of
              Some (status, statusText) \<Rightarrow>
                [console_error [Chalk Red (''Error: '' @ dec status @ '' '' @ statusText)]]
            | None \<Rightarrow>
                if err_request e
                then [console_error [Chalk Red ''Error: No response received from server.'']]
                else [console_error [Chalk Red ''Error:'', Plain (err_message e)]]))"

record 'n run =
  events :: "'n event list"
  exit_code :: nat

text \<open>
  The whole action. Nothing before the client call throws; after a delivered response
  the action prints and returns, and the process ends with code 0; a thrown error
  reaches the \<open>catch\<close> block, which ends the process with code 1.
\<close>

definition action ::
  "'n builtins \<Rightarrow> (config \<Rightarrow> 'n outcome) \<Rightarrow> string \<Rightarrow> options \<Rightarrow> 'n run" where
  "action B client url opts =
     (case client (build_config url opts) of
        Delivered r \<Rightarrow>
          \<lparr>events = print_headers opts r @ print_warning opts r @ print_body B r,
           exit_code = 0\<rparr>
      | Thrown e \<Rightarrow>
          \<lparr>events = report_error opts e, exit_code = 1\<rparr>)"



subsection \<open>What one header flag contributes\<close>

text \<open>
  The entry a header flag leaves in \<open>headers\<close>, stated on the flag itself: the flag has
  a colon, the text before its first colon is not empty, and the trimmed name is not
  \<open>__proto__\<close>; the key is that text trimmed, the value everything after the first
  colon trimmed. \<open>add_header_entry\<close> below proves that \<open>add_header\<close> does this.
\<close>

definition header_entry :: "string \<Rightarrow> (string \<times> string) option" where
  "header_entry h =
     (let name = takeWhile (\<lambda>c. c \<noteq> CHR '':'') h in
      if CHR '':'' \<in> set h \<and> name \<noteq> [] \<and> trim name \<noteq> ''__proto__''
      then Some (trim name, trim (tl (dropWhile (\<lambda>c. c \<noteq> CHR '':'') h)))
      else None)"

subsection \<open>Concrete inputs\<close>

text \<open>
  The options of an invocation that gives only the URL: commander's defaults are
  \<open>GET\<close> for the method and the empty array for the header flags.
\<close>

definition default_options :: options where
  "default_options =
     \<lparr>opt_request = ''GET'', opt_header = [], opt_data = None, opt_dataRaw = None,
      opt_dataBinary = None, opt_user = None, opt_insecure = False, opt_include = False,
      opt_silent = False\<rparr>"

text \<open>
  The document \<open>{"a":1}\<close>, its text, and its text indented by two spaces; built-ins
  that know this document only, and agree with \<open>JSON.parse\<close> and \<open>JSON.stringify\<close>
  on it.
\<close>

definition sample_doc :: "nat jsval" where
  "sample_doc = JObj [(''a'', JNum 1)]"

definition sample_text :: string where
  \<open>sample_text = ''{"a":1}''\<close>

definition sample_pretty :: string where
  \<open>sample_pretty = ''{'' @ [CHR 0x0A] @ ''  "a": 1'' @ [CHR 0x0A] @ ''}''\<close>

definition sample_builtins :: "nat builtins" where
  "sample_builtins =
     \<lparr>json_parse = (\<lambda>s. if s = sample_text \<or> s = sample_pretty then Some sample_doc else None),
      json_stringify = (\<lambda>n v. if n = 2 \<and> v = sample_doc then sample_pretty else ''null''),
      num_to_string = dec\<rparr>"


definition refused :: js_error where
  "refused = \<lparr>err_response = None, err_request = True, err_message = ''connect ECONNREFUSED''\<rparr>"

section \<open>Properties\<close>

subsection \<open>Exit codes and the silent flag\<close>



text \<open>
  C8. When the client call throws and the silent flag is set, the action prints
  nothing, on either stream, and the process still ends with exit code 1.
\<close>

theorem silent_failure_prints_nothing:
  assumes "client (build_config url opts) = Thrown e" and "opt_silent opts"
  shows "events (action B client url opts) = [] \<and> exit_code (action B client url opts) = 1"
  using assms by (simp add: action_def report_error_def)

theorem silent_failure_prints_nothing_witness:
  "events (action sample_builtins (\<lambda>_. Thrown refused) ''https://example.com''
      (default_options\<lparr>opt_silent := True\<rparr>)) = []
   \<and> exit_code (action sample_builtins (\<lambda>_. Thrown refused) ''https://example.com''
      (default_options\<lparr>opt_silent := True\<rparr>)) = 1"
  using silent_failure_prints_nothing
          [of "\<lambda>_. Thrown refused" "''https://example.com''"
              "default_options\<lparr>opt_silent := True\<rparr>" refused sample_builtins]
  by (simp add: default_options_def)

subsection \<open>The two streams\<close>









subsection \<open>Rendering a delivered response\<close>



text \<open>
  Lines 106 to 117, the body that is rendered as JSON. A decoded object or array is
  serialised with \<open>JSON.stringify(data, null, 2)\<close>; under a JSON content type any
  other body is converted to a string and parsed, and what \<open>JSON.parse\<close> returns is
  serialised the same way. In both cases the body line is the highlighter applied to
  that text, after the headers and the warning. Whether \<open>JSON.parse\<close> gives the
  value back from that text is a property of the engine's two built-ins and of its
  numbers, on which this lemma says nothing.
\<close>

lemma json_body_reserialised:
  assumes "client (build_config url opts) = Delivered r"
    and "is_object (resp_data r) \<and> resp_data r = v
         \<or> \<not> is_object (resp_data r) \<and> isJsonHeader r
           \<and> json_parse B (to_string B (resp_data r)) = Some v"
  shows "print_body B r = [console_log [Highlight (json_stringify B 2 v)]]"
    and "events (action B client url opts)
           = print_headers opts r @ print_warning opts r
             @ [console_log [Highlight (json_stringify B 2 v)]]"
    and "exit_code (action B client url opts) = 0"
  using assms by (auto simp: action_def print_body_def)



subsection \<open>Header flags\<close>

text \<open>
  \<open>split\<close> cuts at every colon and \<open>join\<close> puts the colons back, so the first piece
  is the text before the first colon and the joined rest is the text after it.
\<close>

lemma split_colon_not_Nil: "split_colon s \<noteq> []"
  by (induction s) (auto split: list.splits)

lemma split_colon_no_colon: "CHR '':'' \<notin> set s \<Longrightarrow> split_colon s = [s]"
  by (induction s) auto

lemma split_colon_first:
  "CHR '':'' \<notin> set a \<Longrightarrow> split_colon (a @ CHR '':'' # b) = a # split_colon b"
  by (induction a) auto

lemma hd_split_colon: "hd (split_colon s) = takeWhile (\<lambda>c. c \<noteq> CHR '':'') s"
  using split_colon_not_Nil by (induction s) (auto split: list.splits)

lemma join_split_colon: "join_colon (split_colon s) = s"
proof (induction s)
  case Nil
  show ?case by simp
next
  case (Cons c cs)
  obtain p ps where ps: "split_colon cs = p # ps"
    using split_colon_not_Nil [of cs] by (cases "split_colon cs") auto
  show ?case
  proof (cases "c = CHR '':''")
    case True
    with Cons ps show ?thesis by simp
  next
    case False
    with Cons ps show ?thesis by (cases ps) auto
  qed
qed

lemma tl_split_colon:
  "tl (split_colon s) =
     (if CHR '':'' \<in> set s then split_colon (tl (dropWhile (\<lambda>c. c \<noteq> CHR '':'') s)) else [])"
  using split_colon_not_Nil by (induction s) (auto split: list.splits)

lemma add_header_entry:
  "add_header hdrs h = (case header_entry h of None \<Rightarrow> hdrs | Some (k, v) \<Rightarrow> hdrs(k \<mapsto> v))"
proof -
  obtain key valueParts where sp: "split_colon h = key # valueParts"
    using split_colon_not_Nil [of h] by (cases "split_colon h") auto
  have key: "key = takeWhile (\<lambda>c. c \<noteq> CHR '':'') h"
    using hd_split_colon [of h] sp by simp
  have parts: "valueParts =
      (if CHR '':'' \<in> set h then split_colon (tl (dropWhile (\<lambda>c. c \<noteq> CHR '':'') h)) else [])"
    using tl_split_colon [of h] sp by simp
  show ?thesis
  proof (cases "CHR '':'' \<in> set h")
    case True
    with parts have "join_colon valueParts = tl (dropWhile (\<lambda>c. c \<noteq> CHR '':'') h)"
      by (simp add: join_split_colon)
    moreover from True parts have "length valueParts > 0"
      by (simp add: split_colon_not_Nil)
    ultimately show ?thesis
      using True sp key by (simp add: add_header_def header_entry_def set_prop_def Let_def)
  next
    case False
    with parts sp show ?thesis
      by (simp add: add_header_def header_entry_def)
  qed
qed


lemma parse_headers_last_wins:
  "parse_headers hs = map_of (rev (List.map_filter header_entry hs))"
proof -
  have "foldl add_header m hs = m ++ map_of (rev (List.map_filter header_entry hs))" for m
  proof (induction hs arbitrary: m)
    case Nil
    show ?case by (simp add: List.map_filter_simps)
  next
    case (Cons h hs)
    have step: "add_header m h = m ++ map_of (List.map_filter header_entry [h])"
      by (cases "header_entry h") (auto simp: add_header_entry List.map_filter_simps)
    have "foldl add_header m (h # hs) = foldl add_header (add_header m h) hs"
      by simp
    also have "\<dots> = add_header m h ++ map_of (rev (List.map_filter header_entry hs))"
      by (rule Cons)
    also have "\<dots> = m ++ map_of (rev (List.map_filter header_entry (h # hs)))"
      unfolding step by (cases "header_entry h") (simp_all add: List.map_filter_simps)
    finally show ?case .
  qed
  from this [of Map.empty] show ?thesis by (simp add: parse_headers_def)
qed

text \<open>
  C3. The claim holds for every flag but one kind: a flag whose text before the first
  colon is not empty and consists of white space only. The guard of line 41 tests the
  text before it is trimmed, so \<open>" : v"\<close> passes it and is stored under the empty
  name instead of being dropped.
\<close>

theorem whitespace_header_name_kept:
  "cfg_headers (build_config ''https://example.com''
      (default_options\<lparr>opt_header := ['' : v'']\<rparr>)) [] = Some ''v''"
  by (simp add: build_config_def default_options_def select_data_def js_or_def truthy_def
                inject_content_type_def parse_headers_def add_header_def set_prop_def
                trim_def is_space_def)




subsection \<open>Body, content type and credentials\<close>

text \<open>
  C9. The request body is the first truthy value among \<open>-d\<close>, \<open>--data-raw\<close> and
  \<open>--data-binary\<close>, in this order; it is a function of the three option values, which
  carry no trace of the order of the flags on the command line. An empty string given
  to an earlier flag is passed over for a later flag's value. When none of the three is
  truthy, the configuration's body is falsy (\<open>undefined\<close> or the empty string, for
  which the client sends no body) and the headers are the parsed header flags, with no
  content type injected.
\<close>

theorem first_truthy_body:
  "(\<forall>x. find truthy [opt_data opts, opt_dataRaw opts, opt_dataBinary opts] = Some x \<longrightarrow>
       cfg_data (build_config url opts) = x)
   \<and> (truthy (opt_dataRaw opts) \<and> opt_data opts = Some [] \<longrightarrow>
       cfg_data (build_config url opts) = opt_dataRaw opts)
   \<and> (truthy (opt_dataBinary opts) \<and> \<not> truthy (opt_data opts) \<and> \<not> truthy (opt_dataRaw opts) \<longrightarrow>
       cfg_data (build_config url opts) = opt_dataBinary opts)
   \<and> (find truthy [opt_data opts, opt_dataRaw opts, opt_dataBinary opts] = None \<longrightarrow>
       \<not> truthy (cfg_data (build_config url opts))
       \<and> cfg_headers (build_config url opts) = parse_headers (opt_header opts))"
  by (simp add: build_config_def select_data_def js_or_def inject_content_type_def truthy_def)

theorem first_truthy_body_witness:
  "cfg_data (build_config ''https://example.com''
      (default_options\<lparr>opt_data := Some [], opt_dataRaw := Some ''raw'',
                        opt_dataBinary := Some ''bin''\<rparr>)) = Some ''raw''
   \<and> \<not> truthy (cfg_data (build_config ''https://example.com''
      (default_options\<lparr>opt_data := Some [], opt_dataBinary := Some []\<rparr>)))
   \<and> cfg_headers (build_config ''https://example.com''
      (default_options\<lparr>opt_data := Some [], opt_dataBinary := Some []\<rparr>)) ''Content-Type'' = None"
  using first_truthy_body
          [of "default_options\<lparr>opt_data := Some [], opt_dataRaw := Some ''raw'',
                               opt_dataBinary := Some ''bin''\<rparr>" "''https://example.com''"]
        first_truthy_body
          [of "default_options\<lparr>opt_data := Some [], opt_dataBinary := Some []\<rparr>"
              "''https://example.com''"]
  by (simp add: default_options_def truthy_def parse_headers_def)

text \<open>
  The injection of lines 53 to 55 looks two spellings up, \<open>Content-Type\<close> and
  \<open>content-type\<close>, and takes an empty value for an absent one.
\<close>

lemma inject_when_absent:
  "truthy d \<Longrightarrow> hdrs ''Content-Type'' = None \<Longrightarrow> hdrs ''content-type'' = None \<Longrightarrow>
     inject_content_type d hdrs = hdrs(''Content-Type'' \<mapsto> ''application/json'')"
  by (simp add: inject_content_type_def set_prop_def truthy_def)

lemma no_inject_when_present:
  "truthy (hdrs ''Content-Type'') \<or> truthy (hdrs ''content-type'') \<Longrightarrow>
     inject_content_type d hdrs = hdrs"
  by (auto simp: inject_content_type_def)

lemma no_inject_without_body: "\<not> truthy d \<Longrightarrow> inject_content_type d hdrs = hdrs"
  by (simp add: inject_content_type_def)

text \<open>
  C4. A content type given under any other spelling is not seen by the two look-ups of
  line 53: with \<open>-H "Content-type: text/plain"\<close> and a body, the built headers hold
  the user's header and the injected \<open>Content-Type: application/json\<close> as well.
\<close>

theorem content_type_casing_missed:
  "cfg_headers (build_config ''https://example.com''
      (default_options\<lparr>opt_header := [''Content-type: text/plain''],
                        opt_data := Some ''hello''\<rparr>)) ''Content-type'' = Some ''text/plain''
   \<and> cfg_headers (build_config ''https://example.com''
      (default_options\<lparr>opt_header := [''Content-type: text/plain''],
                        opt_data := Some ''hello''\<rparr>)) ''Content-Type'' = Some ''application/json''"
  by (simp add: build_config_def default_options_def select_data_def js_or_def truthy_def
                inject_content_type_def parse_headers_def add_header_def set_prop_def
                trim_def is_space_def)

text \<open>
  The credentials of lines 59 to 62: with no colon the user name is the whole string
  and the password is \<open>undefined\<close>; with one colon the two sides of it.
\<close>

lemma parse_user_no_colon:
  "s \<noteq> [] \<Longrightarrow> CHR '':'' \<notin> set s \<Longrightarrow>
     parse_user (Some s) = Some \<lparr>username = s, password = None\<rparr>"
  by (simp add: parse_user_def split_colon_no_colon)

lemma parse_user_one_colon:
  "CHR '':'' \<notin> set n \<Longrightarrow> CHR '':'' \<notin> set p \<Longrightarrow>
     parse_user (Some (n @ CHR '':'' # p)) = Some \<lparr>username = n, password = Some p\<rparr>"
  by (simp add: parse_user_def split_colon_first split_colon_no_colon)

text \<open>
  C5. The array pattern of line 60 keeps the first two pieces of the split, so a
  password that contains a colon is cut at it: \<open>-u user:pa:ss\<close> gives the password
  \<open>pa\<close>, not \<open>pa:ss\<close>.
\<close>

theorem password_cut_at_second_colon:
  "cfg_auth (build_config ''https://example.com''
      (default_options\<lparr>opt_user := Some ''user:pa:ss''\<rparr>))
     = Some \<lparr>username = ''user'', password = Some ''pa''\<rparr>"
  by (simp add: build_config_def default_options_def parse_user_def Let_def)

end
